theory Spec2Isabelle
  imports Complex_Main "HOL-Library.Multiset"
begin

section \<open>Invoice permissions (domains/invoices/utils/invoice.permissions.ts)\<close>

text \<open>
  \<open>UserRole\<close> is a string at run time (it is read from the decoded credential and cast),
  so a role is a \<open>string\<close>; the three literals the code compares against are
  \<open>''Admin''\<close>, \<open>''Manager''\<close> and \<open>''Clerk''\<close>. \<open>InvoiceStatus\<close> is the numeric
  union \<open>0 | 1 | 2 | 3 | 4\<close>; it is kept as an \<open>int\<close> so that the \<open>default\<close> branches of
  the source's \<open>switch\<close> statements stay visible in the model.
\<close>

text \<open>\<open>Array.prototype.includes\<close>: a linear scan for an equal element.\<close>

fun array_includes :: "'a list \<Rightarrow> 'a \<Rightarrow> bool" where
  "array_includes [] x = False"
| "array_includes (y # ys) x = (y = x \<or> array_includes ys x)"

type_synonym UserRole = string
type_synonym InvoiceStatus = int

definition DRAFT :: InvoiceStatus where "DRAFT = 0"
definition READY :: InvoiceStatus where "READY = 1"
definition AWAITING_CLEARANCE :: InvoiceStatus where "AWAITING_CLEARANCE = 2"
definition VALIDATED :: InvoiceStatus where "VALIDATED = 3"
definition REJECTED :: InvoiceStatus where "REJECTED = 4"

definition canCreateInvoice :: "UserRole \<Rightarrow> bool" where
  "canCreateInvoice userRole = array_includes [''Admin'', ''Manager'', ''Clerk''] userRole"

definition canModifyInvoice :: "UserRole \<Rightarrow> InvoiceStatus \<Rightarrow> bool" where
  "canModifyInvoice userRole invoiceStatus =
     (if userRole = ''Clerk'' then invoiceStatus = DRAFT
      else if userRole = ''Manager'' \<or> userRole = ''Admin'' then
        invoiceStatus = DRAFT \<or> invoiceStatus = READY \<or> invoiceStatus = REJECTED
      else False)"

definition canDeleteInvoice :: "UserRole \<Rightarrow> InvoiceStatus \<Rightarrow> bool" where
  "canDeleteInvoice userRole invoiceStatus = canModifyInvoice userRole invoiceStatus"

definition canChangeInvoiceStatus :: "UserRole \<Rightarrow> InvoiceStatus \<Rightarrow> bool" where
  "canChangeInvoiceStatus userRole invoiceStatus =
     (if userRole = ''Clerk'' then False
      else if userRole = ''Manager'' \<or> userRole = ''Admin'' then
        invoiceStatus = DRAFT \<or> invoiceStatus = READY \<or> invoiceStatus = REJECTED
      else False)"

definition canSubmitInvoice :: "UserRole \<Rightarrow> InvoiceStatus \<Rightarrow> bool" where
  "canSubmitInvoice userRole invoiceStatus =
     ((userRole = ''Manager'' \<or> userRole = ''Admin'') \<and> invoiceStatus = READY)"

definition canPerformDGIStatusCheck :: "UserRole \<Rightarrow> InvoiceStatus \<Rightarrow> bool" where
  "canPerformDGIStatusCheck userRole invoiceStatus =
     ((userRole = ''Manager'' \<or> userRole = ''Admin'') \<and> invoiceStatus = AWAITING_CLEARANCE)"

definition canAccessRejectionReason :: "UserRole \<Rightarrow> InvoiceStatus \<Rightarrow> bool" where
  "canAccessRejectionReason userRole invoiceStatus = (invoiceStatus = REJECTED)"

text \<open>
  The early return for \<open>''Clerk''\<close> comes first; every other role string, recognised or
  not, falls through to the \<open>switch\<close> on the status, whose last branch is \<open>default\<close>.
\<close>

definition getValidStatusTransitions :: "UserRole \<Rightarrow> InvoiceStatus \<Rightarrow> InvoiceStatus list" where
  "getValidStatusTransitions userRole currentStatus =
     (if userRole = ''Clerk'' then [currentStatus]
      else if currentStatus = DRAFT then [DRAFT, READY]
      else if currentStatus = READY then [DRAFT, READY]
      else if currentStatus = AWAITING_CLEARANCE then [AWAITING_CLEARANCE]
      else if currentStatus = VALIDATED then [VALIDATED]
      else if currentStatus = REJECTED then [DRAFT, REJECTED]
      else [currentStatus])"

definition canTransitionToStatus :: "UserRole \<Rightarrow> InvoiceStatus \<Rightarrow> InvoiceStatus \<Rightarrow> bool" where
  "canTransitionToStatus userRole currentStatus targetStatus =
     (let validTransitions = getValidStatusTransitions userRole currentStatus
      in array_includes validTransitions targetStatus)"

record action_permissions =
  canEdit :: bool
  canDelete :: bool
  canSubmit :: bool
  canChangeStatus :: bool
  canCheckDGIStatus :: bool
  canViewRejectionReason :: bool
  validStatusTransitions :: "InvoiceStatus list"

definition getInvoiceActionPermissions :: "UserRole \<Rightarrow> InvoiceStatus \<Rightarrow> action_permissions" where
  "getInvoiceActionPermissions userRole invoiceStatus =
     \<lparr> canEdit = canModifyInvoice userRole invoiceStatus,
       canDelete = canDeleteInvoice userRole invoiceStatus,
       canSubmit = canSubmitInvoice userRole invoiceStatus,
       canChangeStatus = canChangeInvoiceStatus userRole invoiceStatus,
       canCheckDGIStatus = canPerformDGIStatusCheck userRole invoiceStatus,
       canViewRejectionReason = canAccessRejectionReason userRole invoiceStatus,
       validStatusTransitions = getValidStatusTransitions userRole invoiceStatus \<rparr>"

section \<open>JavaScript numbers\<close>

text \<open>
  A Number is an IEEE 754 double. A finite one is kept as the rational it denotes;
  the two zeros are one value (nothing below divides by a variable or looks at the sign
  of a zero). Every arithmetic operation computes the exact result and rounds it to the
  nearest double, to the one with an even significand on a tie.
\<close>

datatype double = Val rat | Pos_inf | Neg_inf | Not_a_number

text \<open>\<open>ilog2 n\<close> is the position of the leading bit of \<open>n\<close>.\<close>

function ilog2 :: "int \<Rightarrow> nat" where
  "ilog2 n = (if n < 2 then 0 else Suc (ilog2 (n div 2)))"
  by pat_completeness auto
termination
  by (relation "measure nat") auto

declare ilog2.simps [simp del]

definition pow2 :: "int \<Rightarrow> rat" where
  "pow2 e = (if 0 \<le> e then 2 ^ nat e else 1 / 2 ^ nat (- e))"

text \<open>The binary exponent of a positive rational \<open>a\<close>: \<open>pow2 (expo a) \<le> a < pow2 (expo a + 1)\<close>.\<close>

definition expo :: "rat \<Rightarrow> int" where
  "expo a =
     (if 1 \<le> a then int (ilog2 \<lfloor>a\<rfloor>)
      else - int (Suc (ilog2 (\<lceil>1 / a\<rceil> - 1))))"

definition round_even :: "rat \<Rightarrow> int" where
  "round_even y =
     (let n = \<lfloor>y\<rfloor>; r = y - of_int n
      in if r < 1 / 2 then n else if 1 / 2 < r then n + 1 else if even n then n else n + 1)"

text \<open>
  Rounding to a double: 53 significant bits, the spacing never below \<open>pow2 (- 1074)\<close>
  (subnormal numbers), and an infinity when the rounded magnitude reaches \<open>2 ^ 1024\<close>.
  That needs a spacing of at least \<open>pow2 971\<close>, which is tested first.
\<close>

definition round_double :: "rat \<Rightarrow> double" where
  "round_double x =
     (if x = 0 then Val 0
      else
        (let e = max (expo \<bar>x\<bar> - 52) (- 1074);
             y = of_int (round_even (x / pow2 e)) * pow2 e
         in if 971 \<le> e \<and> 2 ^ 1024 \<le> \<bar>y\<bar> then (if 0 < x then Pos_inf else Neg_inf)
            else Val y))"

text \<open>The Number that a decimal numeral of the source or of a form field denotes.\<close>

definition number :: "rat \<Rightarrow> double" where
  "number r = round_double r"

fun dadd :: "double \<Rightarrow> double \<Rightarrow> double" where
  "dadd (Val a) (Val b) = round_double (a + b)"
| "dadd Not_a_number y = Not_a_number"
| "dadd x Not_a_number = Not_a_number"
| "dadd Pos_inf Neg_inf = Not_a_number"
| "dadd Neg_inf Pos_inf = Not_a_number"
| "dadd Pos_inf y = Pos_inf"
| "dadd Neg_inf y = Neg_inf"
| "dadd x Pos_inf = Pos_inf"
| "dadd x Neg_inf = Neg_inf"

definition signed_inf :: "bool \<Rightarrow> double" where
  "signed_inf positive = (if positive then Pos_inf else Neg_inf)"

fun dmul :: "double \<Rightarrow> double \<Rightarrow> double" where
  "dmul (Val a) (Val b) = round_double (a * b)"
| "dmul Not_a_number y = Not_a_number"
| "dmul x Not_a_number = Not_a_number"
| "dmul (Val a) Pos_inf = (if a = 0 then Not_a_number else signed_inf (0 < a))"
| "dmul (Val a) Neg_inf = (if a = 0 then Not_a_number else signed_inf (a < 0))"
| "dmul Pos_inf (Val b) = (if b = 0 then Not_a_number else signed_inf (0 < b))"
| "dmul Neg_inf (Val b) = (if b = 0 then Not_a_number else signed_inf (b < 0))"
| "dmul Pos_inf Pos_inf = Pos_inf"
| "dmul Pos_inf Neg_inf = Neg_inf"
| "dmul Neg_inf Pos_inf = Neg_inf"
| "dmul Neg_inf Neg_inf = Pos_inf"

text \<open>\<open>x / 100\<close>, the only division of the code below.\<close>

fun div100 :: "double \<Rightarrow> double" where
  "div100 (Val a) = round_double (a / 100)"
| "div100 Pos_inf = Pos_inf"
| "div100 Neg_inf = Neg_inf"
| "div100 Not_a_number = Not_a_number"

text \<open>
  \<open>x.toFixed(2)\<close> works on the exact value of the double: the sign is split off, and
  \<open>cents\<close> is the integer \<open>n\<close> for which \<open>n / 100\<close> is nearest to the magnitude, the
  larger one on a tie.
\<close>

definition cents :: "rat \<Rightarrow> int" where
  "cents x = (if x < 0 then - \<lfloor>(- x) * 100 + 1 / 2\<rfloor> else \<lfloor>x * 100 + 1 / 2\<rfloor>)"

text \<open>
  \<open>+x.toFixed(2)\<close>: the unary plus reads the printed decimal back as a Number. A value
  that is not finite prints as its name, and one of magnitude \<open>10 ^ 21\<close> or more prints in
  the shortest form that reads back as itself.
\<close>

fun toFixed2 :: "double \<Rightarrow> double" where
  "toFixed2 (Val a) =
     (if 10 ^ 21 \<le> \<bar>a\<bar> then Val a else number (of_int (cents a) / 100))"
| "toFixed2 Pos_inf = Pos_inf"
| "toFixed2 Neg_inf = Neg_inf"
| "toFixed2 Not_a_number = Not_a_number"

section \<open>Quote totals (QuoteForm component, \<open>computeTotals\<close>)\<close>

text \<open>
  A form line has a description, a quantity, a unit price and a tax rate that may be
  missing (\<open>ln.taxRate ?? 20\<close>).
\<close>

record NewLine =
  description :: string
  quantity :: double
  unitPrice :: double
  taxRate :: "double option"

record totals =
  subTotal :: double
  vat :: double
  total :: double

definition computeTotals :: "NewLine list \<Rightarrow> totals" where
  "computeTotals lines =
     (let sub = foldl (\<lambda>sum ln. dadd sum (dmul (quantity ln) (unitPrice ln))) (Val 0) lines;
          vat = foldl (\<lambda>sum ln.
                         dadd sum
                           (div100
                              (dmul (dmul (quantity ln) (unitPrice ln))
                                 (case taxRate ln of None \<Rightarrow> Val 20 | Some r \<Rightarrow> r))))
                  (Val 0) lines
      in \<lparr> subTotal = toFixed2 sub, vat = toFixed2 vat, total = toFixed2 (dadd sub vat) \<rparr>)"

text \<open>The whole cents of an amount, and the unrounded amounts of a list of lines.\<close>

fun cents_of :: "double \<Rightarrow> int option" where
  "cents_of (Val a) = Some (cents a)"
| "cents_of Pos_inf = None"
| "cents_of Neg_inf = None"
| "cents_of Not_a_number = None"

definition sum_amounts :: "NewLine list \<Rightarrow> double" where
  "sum_amounts ls = foldl dadd (Val 0) (map (\<lambda>ln. dmul (quantity ln) (unitPrice ln)) ls)"

definition sum_taxes :: "NewLine list \<Rightarrow> double" where
  "sum_taxes ls =
     foldl dadd (Val 0)
       (map (\<lambda>ln. div100 (dmul (dmul (quantity ln) (unitPrice ln))
                           (case taxRate ln of None \<Rightarrow> Val 20 | Some r \<Rightarrow> r))) ls)"

definition example_lines :: "NewLine list" where
  "example_lines =
     [\<lparr> description = ''Licence'', quantity = number 1, unitPrice = number (10004 / 1000),
        taxRate = Some (number 100) \<rparr>]"

section \<open>Invoices, the paginated list and the application state (App.tsx)\<close>

record customer =
  id_customer :: int
  name_customer :: string

record creator =
  createdById :: string
  name_creator :: string
  email :: string

text \<open>A persisted line: the form fields plus its id, its derived total and its invoice.\<close>

record Line = NewLine +
  id_line :: double
  total_line :: double
  invoiceId :: int

text \<open>
  The fields \<open>NewInvoice\<close> and \<open>Invoice\<close> have in common sit in a parent record, so that
  both keep the field names of the source.
\<close>

record invoice_head = totals +
  invoiceNumber :: string
  date :: string
  status :: InvoiceStatus

record NewInvoice = invoice_head +
  id_new :: "int option"
  customerId :: int
  lines_new :: "NewLine list"

record Invoice = invoice_head +
  id_inv :: int
  customer :: customer
  lines :: "Line list"
  createdAt :: string
  createdBy :: creator
  dgiSubmissionId :: "string option"
  dgiRejectionReason :: "string option"

text \<open>
  A JavaScript number that \<open>Math.ceil(a / b)\<close> can produce from two integers: the page
  count is finite unless the page size is zero.
\<close>

datatype jsnum = Finite int | PosInfinity | NegInfinity | NaN

definition ceil_quotient :: "int \<Rightarrow> int \<Rightarrow> jsnum" where
  "ceil_quotient a b =
     (if b \<noteq> 0 then Finite \<lceil>(of_int a :: rat) / of_int b\<rceil>
      else if 0 < a then PosInfinity
      else if a < 0 then NegInfinity
      else NaN)"

text \<open>\<open>n < x\<close> for a finite \<open>n\<close>: every comparison with \<open>NaN\<close> is false.\<close>

fun js_less :: "int \<Rightarrow> jsnum \<Rightarrow> bool" where
  "js_less n (Finite m) = (n < m)"
| "js_less n PosInfinity = True"
| "js_less n NegInfinity = False"
| "js_less n NaN = False"

record pagination =
  page :: int
  pageSize :: int
  totalItems :: int
  totalPages :: jsnum

record list_data =
  invoices_page :: "Invoice list"
  pagination :: pagination

text \<open>
  Modelled from the spec: \<open>tokenManager\<close> (utils/tokenManager) is not among the sources;
  it is taken to keep the stored credential data, which \<open>clearAuthData\<close> drops.
\<close>

record auth_data =
  storedToken :: string
  storedRole :: string

text \<open>The requests the handlers hand to \<open>fetch\<close>, in the order they are issued.\<close>

datatype request =
    Create_req NewInvoice
  | Update_req int NewInvoice
  | Delete_req int
  | List_req int int

text \<open>
  The React state of \<open>App\<close> that the handlers read and write (\<open>token\<close>, \<open>invoices\<close>,
  \<open>invoiceListData\<close>), the credential store, and the log of issued requests.
\<close>

record app_state =
  token :: "string option"
  authData :: "auth_data option"
  invoices :: "Invoice list"
  invoiceListData :: "list_data option"
  requests :: "request list"

subsection \<open>The transport\<close>

text \<open>
  A response body as the success path reads it: \<open>response.text()\<close> followed by
  \<open>trim\<close> and \<open>JSON.parse\<close>.
\<close>

datatype 'a body = Blank | Malformed | Json 'a

text \<open>The members of a JSON error body that the handlers look at.\<close>

record error_data =
  message :: string
  tempInvoiceId :: "int option"

text \<open>
  A settled \<open>fetch\<close>: the status, the body as the failure path reads it
  (\<open>response.json()\<close>, \<open>None\<close> when that rejects) and the body as the success path reads
  it. Only the reading of the path taken is consulted. A \<open>fetch\<close> that rejects (no
  response at all) is \<open>None\<close> of \<open>'a response option\<close>.
\<close>

record 'a response =
  status_code :: nat
  errorBody :: "error_data option"
  payload :: "'a body"

definition ok :: "'a response \<Rightarrow> bool" where
  "ok r = (200 \<le> status_code r \<and> status_code r \<le> 299)"

text \<open>What a handler throws to its caller.\<close>

datatype thrown =
    ErrorData error_data
  | HttpFallback nat
  | NetworkFailure
  | InvoiceNotFound

subsection \<open>State updates\<close>

definition clearAuthData :: "app_state \<Rightarrow> app_state" where
  "clearAuthData w = w\<lparr>authData := None\<rparr>"

definition setToken :: "string option \<Rightarrow> app_state \<Rightarrow> app_state" where
  "setToken t w = w\<lparr>token := t\<rparr>"

definition setInvoiceListData :: "list_data option \<Rightarrow> app_state \<Rightarrow> app_state" where
  "setInvoiceListData d w = w\<lparr>invoiceListData := d\<rparr>"

definition send :: "request \<Rightarrow> app_state \<Rightarrow> app_state" where
  "send rq w = w\<lparr>requests := requests w @ [rq]\<rparr>"

definition optimisticallyUpdateInvoice :: "Invoice \<Rightarrow> app_state \<Rightarrow> app_state" where
  "optimisticallyUpdateInvoice updatedInvoice w =
     w\<lparr>invoices := map (\<lambda>inv. if id_inv inv = id_inv updatedInvoice then updatedInvoice else inv)
                       (invoices w)\<rparr>"

definition optimisticallyRemoveInvoice :: "int \<Rightarrow> app_state \<Rightarrow> app_state" where
  "optimisticallyRemoveInvoice i w = w\<lparr>invoices := filter (\<lambda>inv. id_inv inv \<noteq> i) (invoices w)\<rparr>"

definition optimisticallyAddInvoice :: "Invoice \<Rightarrow> app_state \<Rightarrow> app_state" where
  "optimisticallyAddInvoice newInvoice w = w\<lparr>invoices := newInvoice # invoices w\<rparr>"

text \<open>
  The updaters handed to \<open>setInvoiceListData\<close>. Each starts with
  \<open>if (!prev) return prev\<close>.
\<close>

definition updateInListData :: "Invoice \<Rightarrow> list_data option \<Rightarrow> list_data option" where
  "updateInListData updatedInvoice prev =
     (case prev of
        None \<Rightarrow> None
      | Some p \<Rightarrow>
          Some (p\<lparr>invoices_page :=
                     map (\<lambda>inv. if id_inv inv = id_inv updatedInvoice then updatedInvoice else inv)
                       (invoices_page p)\<rparr>))"

definition addToListData :: "Invoice \<Rightarrow> list_data option \<Rightarrow> list_data option" where
  "addToListData newInvoice prev =
     (case prev of
        None \<Rightarrow> None
      | Some p \<Rightarrow>
          Some (p\<lparr>invoices_page := newInvoice # invoices_page p,
                  pagination := (pagination p)
                    \<lparr>totalItems := totalItems (pagination p) + 1,
                     totalPages := ceil_quotient (totalItems (pagination p) + 1)
                                     (pageSize (pagination p))\<rparr>\<rparr>))"

definition removeFromListData :: "int \<Rightarrow> list_data option \<Rightarrow> list_data option" where
  "removeFromListData i prev =
     (case prev of
        None \<Rightarrow> None
      | Some p \<Rightarrow>
          (let updatedInvoices = filter (\<lambda>inv. id_inv inv \<noteq> i) (invoices_page p)
           in Some (p\<lparr>invoices_page := updatedInvoices,
                      pagination := (pagination p)
                        \<lparr>totalItems := totalItems (pagination p) - 1,
                         totalPages := ceil_quotient (totalItems (pagination p) - 1)
                                         (pageSize (pagination p))\<rparr>\<rparr>)))"

definition removeManyFromListData :: "int list \<Rightarrow> list_data option \<Rightarrow> list_data option" where
  "removeManyFromListData ids prev =
     (case prev of
        None \<Rightarrow> None
      | Some p \<Rightarrow>
          (let updatedInvoices = filter (\<lambda>inv. \<not> array_includes ids (id_inv inv)) (invoices_page p)
           in Some (p\<lparr>invoices_page := updatedInvoices,
                      pagination := (pagination p)
                        \<lparr>totalItems := totalItems (pagination p) - int (length ids),
                         totalPages := ceil_quotient (totalItems (pagination p) - int (length ids))
                                         (pageSize (pagination p))\<rparr>\<rparr>)))"

definition silentlyUpdateInvoiceInList :: "Invoice \<Rightarrow> app_state \<Rightarrow> app_state" where
  "silentlyUpdateInvoiceInList updatedInvoice w =
     w\<lparr>invoiceListData := updateInListData updatedInvoice (invoiceListData w)\<rparr>"

definition silentlyAddInvoiceToList :: "Invoice \<Rightarrow> app_state \<Rightarrow> app_state" where
  "silentlyAddInvoiceToList newInvoice w =
     w\<lparr>invoiceListData := addToListData newInvoice (invoiceListData w)\<rparr>"

text \<open>
  A sequence of list mutations, as the three updaters above are applied one after the
  other to the list data.
\<close>

datatype cache_op = Add_to_list Invoice | Delete_one int | Delete_many "int list"

fun apply_cache_op :: "cache_op \<Rightarrow> list_data option \<Rightarrow> list_data option" where
  "apply_cache_op (Add_to_list newInvoice) prev = addToListData newInvoice prev"
| "apply_cache_op (Delete_one i) prev = removeFromListData i prev"
| "apply_cache_op (Delete_many ids) prev = removeManyFromListData ids prev"

definition run_cache_ops :: "cache_op list \<Rightarrow> list_data option \<Rightarrow> list_data option" where
  "run_cache_ops ops prev = foldl (\<lambda>d c. apply_cache_op c d) prev ops"

definition pagination_consistent :: "list_data option \<Rightarrow> bool" where
  "pagination_consistent d =
     (case d of
        None \<Rightarrow> True
      | Some p \<Rightarrow>
          totalPages (pagination p)
            = ceil_quotient (totalItems (pagination p)) (pageSize (pagination p)))"

section \<open>The mutation handlers (App.tsx)\<close>

text \<open>
  Each handler is run as one operation on the state it captured when it was called: the
  values it closes over (\<open>invoices\<close>, \<open>invoiceListData\<close>, \<open>token\<close>) are those of the
  state it starts from, and no other update is interleaved while it waits for the
  transport. Notifications are not part of the state.

  What a handler reads from its surroundings while it builds a record: the clock
  (\<open>now k\<close> is what the \<open>k\<close>-th call of \<open>Date.now()\<close> within the construction
  returns, an integer number of milliseconds), the draws of \<open>Math.random()\<close> and the
  time stamp \<open>new Date().toISOString()\<close>.
\<close>

record env =
  now :: "nat \<Rightarrow> int"
  random :: "nat \<Rightarrow> double"
  isoNow :: string

text \<open>\<open>a || b\<close> on a string that may be undefined: the empty string is falsy too.\<close>

definition or_else :: "string option \<Rightarrow> string \<Rightarrow> string" where
  "or_else a b = (case a of None \<Rightarrow> b | Some s \<Rightarrow> if s = [] then b else s)"

text \<open>
  The lines of an optimistic record: line \<open>k\<close> gets the id \<open>lineId k\<close> and the invoice id
  \<open>invId k\<close>, and its total is the product of quantity and unit price.
\<close>

definition tempLines :: "(nat \<Rightarrow> double) \<Rightarrow> (nat \<Rightarrow> int) \<Rightarrow> NewLine list \<Rightarrow> Line list" where
  "tempLines lineId invId ls =
     map (\<lambda>(k, line).
            \<lparr> description = description line,
              quantity = quantity line,
              unitPrice = unitPrice line,
              taxRate = taxRate line,
              id_line = lineId k,
              total_line = dmul (quantity line) (unitPrice line),
              invoiceId = invId k \<rparr>)
       (enumerate 0 ls)"

text \<open>
  The fields of the object literal are evaluated in order: the clock is read first for
  the id of the record, then twice for each line (\<open>Date.now() + Math.random()\<close> for the id
  of the line, \<open>Date.now()\<close> for its invoice id).
\<close>

definition tempInvoice :: "NewInvoice \<Rightarrow> string option \<Rightarrow> string \<Rightarrow> env \<Rightarrow> Invoice" where
  "tempInvoice newInvoice customerName userEmail e =
     \<lparr> subTotal = subTotal newInvoice,
       vat = vat newInvoice,
       total = total newInvoice,
       invoiceNumber = invoiceNumber newInvoice,
       date = date newInvoice,
       status = status newInvoice,
       id_inv = now e 0,
       customer = \<lparr> id_customer = customerId newInvoice,
                    name_customer = or_else customerName ''Unknown Customer'' \<rparr>,
       lines = tempLines (\<lambda>k. dadd (number (of_int (now e (2 * k + 1)))) (random e k))
                 (\<lambda>k. now e (2 * k + 2)) (lines_new newInvoice),
       createdAt = isoNow e,
       createdBy = \<lparr> createdById = [],
                     name_creator =
                       or_else (Some (takeWhile (\<lambda>c. c \<noteq> CHR ''@'') userEmail)) ''User'',
                     email = userEmail \<rparr>,
       dgiSubmissionId = None,
       dgiRejectionReason = None \<rparr>"

subsection \<open>Create\<close>

fun thrown_tempInvoiceId :: "thrown \<Rightarrow> int option" where
  "thrown_tempInvoiceId (ErrorData d) = tempInvoiceId d"
| "thrown_tempInvoiceId (HttpFallback n) = None"
| "thrown_tempInvoiceId NetworkFailure = None"
| "thrown_tempInvoiceId InvoiceNotFound = None"

text \<open>
  The \<open>catch\<close> block of \<open>handleCreateInvoice\<close>: if the caught value has a truthy
  \<open>tempInvoiceId\<close> member, the invoice of that id is removed; the value is thrown again.
\<close>

definition create_catch :: "thrown \<Rightarrow> app_state \<Rightarrow> (thrown + unit) \<times> app_state" where
  "create_catch err w =
     (Inl err,
      (case thrown_tempInvoiceId err of
         None \<Rightarrow> w
       | Some k \<Rightarrow> if k \<noteq> 0 then optimisticallyRemoveInvoice k w else w))"

definition handleCreateInvoice ::
  "NewInvoice \<Rightarrow> string option \<Rightarrow> string \<Rightarrow> env \<Rightarrow> Invoice response option
     \<Rightarrow> app_state \<Rightarrow> (thrown + unit) \<times> app_state" where
  "handleCreateInvoice newInvoice customerName userEmail e resp w =
     (let tmp = tempInvoice newInvoice customerName userEmail e;
          w1 = optimisticallyAddInvoice tmp w;
          w2 = send (Create_req newInvoice) w1
      in case resp of
           None \<Rightarrow> create_catch NetworkFailure w2
         | Some r \<Rightarrow>
             if status_code r = 401 then
               (Inr (), optimisticallyRemoveInvoice (id_inv tmp) (setToken None (clearAuthData w2)))
             else if \<not> ok r then
               (let errorData = (case errorBody r of
                                   Some d \<Rightarrow> ErrorData d
                                 | None \<Rightarrow> HttpFallback (status_code r))
                in create_catch errorData (optimisticallyRemoveInvoice (id_inv tmp) w2))
             else
               (case payload r of
                  Json createdInvoice \<Rightarrow>
                    (Inr (),
                     silentlyAddInvoiceToList createdInvoice
                       (optimisticallyAddInvoice createdInvoice
                          (optimisticallyRemoveInvoice (id_inv tmp) w2)))
                | Malformed \<Rightarrow> (Inr (), optimisticallyRemoveInvoice (id_inv tmp) w2)
                | Blank \<Rightarrow> (Inr (), optimisticallyRemoveInvoice (id_inv tmp) w2)))"

subsection \<open>Update\<close>

definition updatedInvoice_of :: "Invoice \<Rightarrow> NewInvoice \<Rightarrow> int \<Rightarrow> string option \<Rightarrow> env \<Rightarrow> Invoice" where
  "updatedInvoice_of originalInvoice invoice i customerName e =
     originalInvoice
       \<lparr> invoiceNumber := invoiceNumber invoice,
         date := date invoice,
         customer := \<lparr> id_customer = customerId invoice,
                       name_customer = or_else customerName (name_customer (customer originalInvoice)) \<rparr>,
         subTotal := subTotal invoice,
         vat := vat invoice,
         total := total invoice,
         status := status invoice,
         lines := tempLines (\<lambda>k. dadd (number (of_int (now e k))) (random e k))
                    (\<lambda>k. i) (lines_new invoice) \<rparr>"

text \<open>
  \<open>!invoice.id\<close> holds for a missing id and for the id 0: the handler then returns
  before anything is sent. A record that is not in \<open>invoices\<close> makes it throw.
\<close>

definition handleUpdateInvoice ::
  "NewInvoice \<Rightarrow> string option \<Rightarrow> env \<Rightarrow> Invoice response option
     \<Rightarrow> app_state \<Rightarrow> (thrown + unit) \<times> app_state" where
  "handleUpdateInvoice invoice customerName e resp w =
     (case id_new invoice of
        None \<Rightarrow> (Inr (), w)
      | Some i \<Rightarrow>
          if i = 0 then (Inr (), w)
          else
            (case find (\<lambda>inv. id_inv inv = i) (invoices w) of
               None \<Rightarrow> (Inl InvoiceNotFound, w)
             | Some originalInvoice \<Rightarrow>
                 (let updatedInvoice = updatedInvoice_of originalInvoice invoice i customerName e;
                      w1 = optimisticallyUpdateInvoice updatedInvoice w;
                      w2 = send (Update_req i invoice) w1
                  in case resp of
                       None \<Rightarrow> (Inl NetworkFailure, w2)
                     | Some r \<Rightarrow>
                         if status_code r = 401 then
                           (Inr (),
                            optimisticallyUpdateInvoice originalInvoice
                              (setToken None (clearAuthData w2)))
                         else if \<not> ok r then
                           (let errorData = (case errorBody r of
                                               Some d \<Rightarrow> ErrorData d
                                             | None \<Rightarrow> HttpFallback (status_code r))
                            in (Inl errorData, optimisticallyUpdateInvoice originalInvoice w2))
                         else
                           (case payload r of
                              Json serverUpdatedInvoice \<Rightarrow>
                                (Inr (),
                                 silentlyUpdateInvoiceInList serverUpdatedInvoice
                                   (optimisticallyUpdateInvoice serverUpdatedInvoice w2))
                            | Malformed \<Rightarrow> (Inr (), silentlyUpdateInvoiceInList updatedInvoice w2)
                            | Blank \<Rightarrow> (Inr (), silentlyUpdateInvoiceInList updatedInvoice w2)))))"

subsection \<open>Delete and page repair\<close>

text \<open>
  The silent refresh of the current page: it is issued with the page and page size of the
  list data the handler captured when it was called, and a failed refresh changes nothing.
\<close>

definition refreshPage :: "list_data \<Rightarrow> list_data response option \<Rightarrow> app_state \<Rightarrow> app_state" where
  "refreshPage d refresh w =
     (let w1 = send (List_req (page (pagination d)) (pageSize (pagination d))) w
      in case refresh of
           None \<Rightarrow> w1
         | Some r \<Rightarrow>
             if ok r then
               (case payload r of
                  Json refreshedData \<Rightarrow> setInvoiceListData (Some refreshedData) w1
                | Malformed \<Rightarrow> w1
                | Blank \<Rightarrow> w1)
             else w1)"

text \<open>
  The handler catches everything it throws and reports it in a notification, so it
  returns the state only. A record missing from \<open>invoices\<close> ends it before any change.
\<close>

definition handleDeleteInvoice ::
  "int \<Rightarrow> unit response option \<Rightarrow> list_data response option \<Rightarrow> app_state \<Rightarrow> app_state" where
  "handleDeleteInvoice i resp refresh w =
     (let originalData = invoiceListData w
      in case find (\<lambda>inv. id_inv inv = i) (invoices w) of
           None \<Rightarrow> w
         | Some originalInvoice \<Rightarrow>
             (let willPageBeIncomplete =
                    (case invoiceListData w of
                       None \<Rightarrow> False
                     | Some d \<Rightarrow>
                         int (length (invoices_page d)) = pageSize (pagination d)
                         \<and> js_less (page (pagination d)) (totalPages (pagination d)));
                  w1 = optimisticallyRemoveInvoice i w;
                  w2 = (if invoiceListData w \<noteq> None
                        then w1\<lparr>invoiceListData := removeFromListData i (invoiceListData w1)\<rparr>
                        else w1);
                  w3 = send (Delete_req i) w2
              in case resp of
                   None \<Rightarrow> w3
                 | Some r \<Rightarrow>
                     if status_code r = 401 then
                       setInvoiceListData originalData
                         (optimisticallyAddInvoice originalInvoice
                            (setToken None (clearAuthData w3)))
                     else if \<not> ok r then
                       setInvoiceListData originalData (optimisticallyAddInvoice originalInvoice w3)
                     else
                       (case originalData of
                          None \<Rightarrow> w3
                        | Some d \<Rightarrow> if willPageBeIncomplete then refreshPage d refresh w3 else w3)))"

subsection \<open>Bulk delete\<close>

text \<open>
  One \<open>DELETE\<close> per id, all issued before any settles; \<open>reply k\<close> is how the call for
  the \<open>k\<close>-th id settles. \<open>Promise.all\<close> rejects as soon as one call rejects, and the
  calls still in flight only touch the session (on a 401), so the state once all calls have
  settled does not depend on the order in which they do.
\<close>

definition call_unauthenticated :: "'a response option \<Rightarrow> bool" where
  "call_unauthenticated s = (case s of None \<Rightarrow> False | Some r \<Rightarrow> status_code r = 401)"

definition call_fails :: "'a response option \<Rightarrow> bool" where
  "call_fails s = (case s of None \<Rightarrow> True | Some r \<Rightarrow> status_code r = 401 \<or> \<not> ok r)"

definition handleBulkDelete ::
  "int list \<Rightarrow> (nat \<Rightarrow> unit response option) \<Rightarrow> list_data response option
     \<Rightarrow> app_state \<Rightarrow> app_state" where
  "handleBulkDelete ids reply refresh w =
     (let originalData = invoiceListData w;
          originalInvoices = filter (\<lambda>inv. array_includes ids (id_inv inv)) (invoices w);
          willPageBeIncomplete =
            (case invoiceListData w of
               None \<Rightarrow> False
             | Some d \<Rightarrow>
                 int (length (invoices_page d)) = pageSize (pagination d)
                 \<and> 0 < length ids
                 \<and> js_less (page (pagination d)) (totalPages (pagination d)));
          w1 = fold optimisticallyRemoveInvoice ids w;
          w2 = (if invoiceListData w \<noteq> None
                then w1\<lparr>invoiceListData := removeManyFromListData ids (invoiceListData w1)\<rparr>
                else w1);
          w3 = fold send (map Delete_req ids) w2;
          settled = map reply [0..<length ids];
          w4 = (if list_ex call_unauthenticated settled
                then setToken None (clearAuthData w3) else w3)
      in if list_ex call_fails settled then
           setInvoiceListData originalData (fold optimisticallyAddInvoice originalInvoices w4)
         else
           (case originalData of
              None \<Rightarrow> w4
            | Some d \<Rightarrow> if willPageBeIncomplete then refreshPage d refresh w4 else w4))"

subsection \<open>Example data\<close>

definition example_env :: env where
  "example_env =
     \<lparr> now = (\<lambda>k. 1700000000000), random = (\<lambda>k. Val (1 / 2)),
       isoNow = ''2023-11-14T22:13:20.000Z'' \<rparr>"

definition example_new :: NewInvoice where
  "example_new =
     \<lparr> subTotal = Val 100, vat = Val 20, total = Val 120,
       invoiceNumber = ''INV-7'', date = ''2023-11-14'', status = DRAFT,
       id_new = None, customerId = 3,
       lines_new = [\<lparr> description = ''Service'', quantity = Val 1, unitPrice = Val 100,
                      taxRate = Some (Val 20) \<rparr>] \<rparr>"

definition example_invoice :: "int \<Rightarrow> Invoice" where
  "example_invoice i =
     \<lparr> subTotal = Val 50, vat = Val 10, total = Val 60,
       invoiceNumber = ''INV-1'', date = ''2023-11-01'', status = READY,
       id_inv = i,
       customer = \<lparr> id_customer = 3, name_customer = ''Acme'' \<rparr>,
       lines = [],
       createdAt = ''2023-11-01T08:00:00.000Z'',
       createdBy = \<lparr> createdById = ''u1'', name_creator = ''amal'', email = ''amal@example.test'' \<rparr>,
       dgiSubmissionId = None,
       dgiRejectionReason = None \<rparr>"

definition example_page :: "int list \<Rightarrow> int \<Rightarrow> int \<Rightarrow> int \<Rightarrow> int \<Rightarrow> list_data" where
  "example_page ids pg sz items pages =
     \<lparr> invoices_page = map example_invoice ids,
       pagination = \<lparr> page = pg, pageSize = sz, totalItems = items, totalPages = Finite pages \<rparr> \<rparr>"

definition example_state :: "int list \<Rightarrow> list_data option \<Rightarrow> app_state" where
  "example_state ids d =
     \<lparr> token = Some ''jwt'',
       authData = Some \<lparr> storedToken = ''jwt'', storedRole = ''Manager'' \<rparr>,
       invoices = map example_invoice ids,
       invoiceListData = d,
       requests = [] \<rparr>"

definition reply_with :: "nat \<Rightarrow> 'a response option" where
  "reply_with code = Some \<lparr> status_code = code, errorBody = None, payload = Blank \<rparr>"

definition example_replies :: "nat \<Rightarrow> nat \<Rightarrow> nat \<Rightarrow> unit response option" where
  "example_replies bad code k = (if k = bad then reply_with code else reply_with 204)"

definition example_error_reply :: "nat \<Rightarrow> int \<Rightarrow> 'a response option" where
  "example_error_reply code k =
     Some \<lparr> status_code = code,
            errorBody = Some \<lparr> message = ''rejected'', tempInvoiceId = Some k \<rparr>,
            payload = Blank \<rparr>"

section \<open>Properties of the status transition policy\<close>

lemmas INVOICE_STATUS = DRAFT_def READY_def AWAITING_CLEARANCE_def VALIDATED_def REJECTED_def

lemma includes_iff: "array_includes xs x \<longleftrightarrow> x \<in> set xs"
  by (induction xs) auto

lemma unknown_role_capabilities:
  assumes "userRole \<noteq> ''Admin''" "userRole \<noteq> ''Manager''" "userRole \<noteq> ''Clerk''"
  shows "\<not> canModifyInvoice userRole st" "\<not> canDeleteInvoice userRole st"
    "\<not> canSubmitInvoice userRole st" "\<not> canChangeInvoiceStatus userRole st"
  using assms
  by (simp_all add: canModifyInvoice_def canDeleteInvoice_def canSubmitInvoice_def
      canChangeInvoiceStatus_def)

lemma unknown_role_transitions:
  assumes "userRole \<noteq> ''Clerk''"
  shows "getValidStatusTransitions userRole st = getValidStatusTransitions ''Admin'' st"
  using assms by (simp add: getValidStatusTransitions_def)

text \<open>
  C3. Queried with a role outside Admin, Manager and Clerk, the policy is claimed to
  grant no capability and no transition beyond the no-op one. The capability predicates
  do answer \<open>False\<close> for the role \<open>''Guest''\<close> on a draft invoice, but
  \<open>getValidStatusTransitions\<close> only singles out \<open>''Clerk''\<close>: for \<open>''Guest''\<close> it returns
  the list a manager gets, so the transition from Draft to Ready is reported as permitted.
\<close>

theorem unknown_role_gets_manager_transitions:
  "getValidStatusTransitions ''Guest'' DRAFT = [DRAFT, READY]
   \<and> canTransitionToStatus ''Guest'' DRAFT READY
   \<and> DRAFT \<noteq> READY
   \<and> \<not> canChangeInvoiceStatus ''Guest'' DRAFT
   \<and> \<not> canModifyInvoice ''Guest'' DRAFT
   \<and> \<not> canDeleteInvoice ''Guest'' DRAFT
   \<and> \<not> canSubmitInvoice ''Guest'' DRAFT"
  by (simp add: getValidStatusTransitions_def canTransitionToStatus_def
      canChangeInvoiceStatus_def canModifyInvoice_def canDeleteInvoice_def
      canSubmitInvoice_def INVOICE_STATUS)

text \<open>
  C7. For every role and every current status, the list returned by
  \<open>getValidStatusTransitions\<close> contains the current status (the no-op transition), and
  \<open>canTransitionToStatus\<close> answers \<open>True\<close> exactly for the members of that list.
\<close>

theorem transitions_contain_current_and_decide_canTransition:
  "currentStatus \<in> set (getValidStatusTransitions userRole currentStatus)
   \<and> (canTransitionToStatus userRole currentStatus targetStatus
        \<longleftrightarrow> targetStatus \<in> set (getValidStatusTransitions userRole currentStatus))"
  by (simp add: getValidStatusTransitions_def canTransitionToStatus_def includes_iff)

theorem transitions_contain_current_witness:
  "REJECTED \<in> set (getValidStatusTransitions ''Manager'' REJECTED)
   \<and> (canTransitionToStatus ''Manager'' REJECTED DRAFT
        \<longleftrightarrow> DRAFT \<in> set (getValidStatusTransitions ''Manager'' REJECTED))
   \<and> canTransitionToStatus ''Manager'' REJECTED DRAFT"
  using transitions_contain_current_and_decide_canTransition [of REJECTED "''Manager''" DRAFT]
  by (simp add: getValidStatusTransitions_def INVOICE_STATUS)

text \<open>
  C10. For every role and every invoice status, \<open>canDeleteInvoice\<close> returns the same
  boolean as \<open>canModifyInvoice\<close>.
\<close>

theorem canDelete_eq_canModify:
  "canDeleteInvoice userRole invoiceStatus = canModifyInvoice userRole invoiceStatus"
  by (simp add: canDeleteInvoice_def)

theorem canDelete_eq_canModify_witness:
  "canDeleteInvoice ''Clerk'' DRAFT = canModifyInvoice ''Clerk'' DRAFT
   \<and> canDeleteInvoice ''Clerk'' DRAFT
   \<and> canDeleteInvoice ''Manager'' VALIDATED = canModifyInvoice ''Manager'' VALIDATED
   \<and> \<not> canDeleteInvoice ''Manager'' VALIDATED"
  using canDelete_eq_canModify [of "''Clerk''" DRAFT]
    canDelete_eq_canModify [of "''Manager''" VALIDATED]
  by (simp add: canModifyInvoice_def INVOICE_STATUS)
section \<open>Properties of the quote totals\<close>

lemma example_totals:
  "computeTotals example_lines
     = \<lparr> subTotal = Val 10, vat = Val 10,
         total = Val (5632314283980227 / 281474976710656) \<rparr>"
  by code_simp

text \<open>
  One line of quantity 1 at 10.004 with a tax rate of 100 percent: both components round
  down to 10.00, the sum of the unrounded amounts rounds up to 20.01, the double
  5632314283980227 / 281474976710656.
\<close>

theorem computeTotals_counterexample:
  "subTotal (computeTotals example_lines) = Val 10
   \<and> vat (computeTotals example_lines) = Val 10
   \<and> total (computeTotals example_lines) = number (2001 / 100)
   \<and> dadd (subTotal (computeTotals example_lines)) (vat (computeTotals example_lines)) = Val 20
   \<and> total (computeTotals example_lines) \<noteq> Val 20"
proof -
  have "number (2001 / 100) = Val (5632314283980227 / 281474976710656)"
    and "dadd (Val 10) (Val 10) = Val 20"
    by code_simp+
  then show ?thesis by (simp add: example_totals)
qed

subsection \<open>Rounding errors\<close>

lemma round_even_close: "\<bar>of_int (round_even y) - y\<bar> \<le> 1 / 2"
proof -
  define n where "n = \<lfloor>y\<rfloor>"
  have f: "of_int n \<le> y" "y < of_int n + 1"
    using floor_correct [of y] by (simp_all add: n_def)
  consider "y - of_int n < 1 / 2" | "1 / 2 < y - of_int n" | "y - of_int n = 1 / 2"
    by linarith
  then show ?thesis
  proof cases
    case 1
    then have "round_even y = n" by (simp add: round_even_def Let_def n_def)
    with 1 f show ?thesis unfolding abs_le_iff by simp
  next
    case 2
    then have "round_even y = n + 1" by (simp add: round_even_def Let_def n_def)
    with 2 f show ?thesis unfolding abs_le_iff by simp
  next
    case 3
    then have "round_even y = n \<or> round_even y = n + 1"
      by (simp add: round_even_def Let_def n_def)
    with 3 f show ?thesis unfolding abs_le_iff by auto
  qed
qed

lemma ilog2_le: "n < 2 ^ Suc k \<Longrightarrow> ilog2 n \<le> k"
proof (induction k arbitrary: n)
  case 0
  then show ?case by (simp add: ilog2.simps)
next
  case (Suc k)
  show ?case
  proof (cases "n < 2")
    case True
    then show ?thesis by (simp add: ilog2.simps)
  next
    case False
    from Suc.prems have "n div 2 < 2 ^ Suc k" by simp
    then have "ilog2 (n div 2) \<le> k" by (rule Suc.IH)
    with False show ?thesis by (simp add: ilog2.simps [of n])
  qed
qed

lemma expo_le:
  assumes "0 < a" and "a < 2 ^ 46"
  shows "expo a \<le> 45"
proof (cases "1 \<le> a")
  case True
  have "\<lfloor>a\<rfloor> < 2 ^ Suc 45"
    using assms(2) by (simp add: floor_less_iff)
  then have "ilog2 \<lfloor>a\<rfloor> \<le> 45" by (rule ilog2_le)
  with True show ?thesis by (simp add: expo_def)
next
  case False
  then show ?thesis by (simp add: expo_def)
qed

lemma pow2_pos: "0 < pow2 e"
  by (simp add: pow2_def)

lemma pow2_small:
  assumes "e \<le> - 7"
  shows "pow2 e \<le> 1 / 128"
proof -
  from assms have "7 \<le> nat (- e)" by simp
  then have "(2::rat) ^ 7 \<le> 2 ^ nat (- e)"
    by (rule power_increasing) simp
  then have "1 / (2::rat) ^ nat (- e) \<le> 1 / 2 ^ 7"
    by (intro divide_left_mono) simp_all
  with assms show ?thesis by (simp add: pow2_def)
qed

lemma round_double_close:
  assumes "\<bar>x\<bar> < 2 ^ 46"
  shows "\<exists>y. round_double x = Val y \<and> \<bar>y - x\<bar> \<le> 1 / 256"
proof (cases "x = 0")
  case True
  then show ?thesis by (simp add: round_double_def)
next
  case False
  define e where "e = max (expo \<bar>x\<bar> - 52) (- 1074)"
  define q where "q = pow2 e"
  define y where "y = of_int (round_even (x / q)) * q"
  from False assms have "expo \<bar>x\<bar> \<le> 45" by (intro expo_le) simp_all
  then have e: "e \<le> - 7" by (simp add: e_def)
  have q: "q \<le> 1 / 128" and qpos: "0 < q"
    unfolding q_def by (rule pow2_small [OF e], rule pow2_pos)
  have rd: "round_double x = Val y"
    using False e by (simp add: round_double_def Let_def e_def [symmetric] q_def [symmetric] y_def)
  have "y - x = (of_int (round_even (x / q)) - x / q) * q"
    using qpos by (simp add: y_def algebra_simps)
  then have "\<bar>y - x\<bar> = \<bar>of_int (round_even (x / q)) - x / q\<bar> * q"
    using qpos by (simp add: abs_mult)
  also have "\<dots> \<le> (1 / 2) * q"
    using round_even_close [of "x / q"] qpos by (intro mult_right_mono) simp_all
  also have "\<dots> \<le> 1 / 256" using q by simp
  finally show ?thesis using rd by blast
qed

lemma cents_close: "\<bar>of_int (cents x) - 100 * x\<bar> \<le> 1 / 2"
proof (cases "x < 0")
  case True
  let ?y = "(- x) * 100 + 1 / 2"
  have "of_int \<lfloor>?y\<rfloor> \<le> ?y" and "?y < of_int \<lfloor>?y\<rfloor> + 1"
    using floor_correct [of ?y] by simp_all
  with True show ?thesis unfolding cents_def abs_le_iff
    by (simp only: if_True of_int_minus) (intro conjI; linarith)
next
  case False
  let ?y = "x * 100 + 1 / 2"
  have "of_int \<lfloor>?y\<rfloor> \<le> ?y" and "?y < of_int \<lfloor>?y\<rfloor> + 1"
    using floor_correct [of ?y] by simp_all
  with False show ?thesis unfolding cents_def abs_le_iff
    by (simp only: if_False) (intro conjI; linarith)
qed

lemma cents_near:
  assumes "\<bar>y - of_int n / 100\<bar> \<le> 1 / 256"
  shows "cents y = n"
proof -
  from assms have lo: "of_int n - 100 / 256 \<le> 100 * y" and hi: "100 * y \<le> of_int n + 100 / 256"
    unfolding abs_le_iff by (simp_all add: algebra_simps)
  show ?thesis
  proof (cases "y < 0")
    case True
    have "\<lfloor>(- y) * 100 + 1 / 2\<rfloor> = - n"
      using lo hi by (intro floor_unique) (simp_all add: algebra_simps)
    with True show ?thesis by (simp add: cents_def)
  next
    case False
    have "\<lfloor>y * 100 + 1 / 2\<rfloor> = n"
      using lo hi by (intro floor_unique) (simp_all add: algebra_simps)
    with False show ?thesis by (simp add: cents_def)
  qed
qed

lemma toFixed2_cents:
  assumes "\<bar>a\<bar> \<le> 2 ^ 45 + 1"
  shows "cents_of (toFixed2 (Val a)) = Some (cents a)"
proof -
  have c: "\<bar>of_int (cents a) / 100 - a\<bar> \<le> 1 / 200"
    using cents_close [of a] unfolding abs_le_iff by (simp add: algebra_simps)
  with assms have "\<bar>(of_int (cents a) :: rat) / 100\<bar> < 2 ^ 46"
    unfolding abs_le_iff abs_less_iff by (simp add: algebra_simps)
  then obtain y where y: "round_double (of_int (cents a) / 100) = Val y"
    and "\<bar>y - of_int (cents a) / 100\<bar> \<le> 1 / 256"
    using round_double_close by blast
  then have "cents y = cents a" by (intro cents_near)
  moreover from assms have "\<not> 10 ^ 21 \<le> \<bar>a\<bar>" by simp
  ultimately show ?thesis using y by (simp add: number_def)
qed

lemma sum_cents:
  assumes "\<bar>s\<bar> \<le> 2 ^ 44" and "\<bar>v\<bar> \<le> 2 ^ 44"
  shows "\<exists>t. cents_of (toFixed2 (dadd (Val s) (Val v))) = Some t
             \<and> \<bar>t - (cents s + cents v)\<bar> \<le> 1"
proof -
  from assms have "\<bar>s + v\<bar> < 2 ^ 46" by (simp add: abs_le_iff abs_less_iff)
  then obtain S where S: "round_double (s + v) = Val S" and d: "\<bar>S - (s + v)\<bar> \<le> 1 / 256"
    using round_double_close by blast
  from d assms have "\<bar>S\<bar> \<le> 2 ^ 45 + 1"
    unfolding abs_le_iff by (simp add: algebra_simps)
  then have t: "cents_of (toFixed2 (Val S)) = Some (cents S)" by (rule toFixed2_cents)
  let ?k = "cents S - (cents s + cents v)"
  note b = cents_close [unfolded abs_le_iff]
  note c = b [of S, THEN conjunct1] b [of S, THEN conjunct2]
    b [of s, THEN conjunct1] b [of s, THEN conjunct2]
    b [of v, THEN conjunct1] b [of v, THEN conjunct2]
    d [unfolded abs_le_iff, THEN conjunct1] d [unfolded abs_le_iff, THEN conjunct2]
  have e: "(of_int ?k :: rat) = of_int (cents S) - (of_int (cents s) + of_int (cents v))"
    by simp
  have e': "(of_int (- ?k) :: rat) = of_int (cents s) + of_int (cents v) - of_int (cents S)"
    by simp
  from c have "of_int (cents S) - (of_int (cents s) + of_int (cents v)) < (2 :: rat)"
    by (simp add: algebra_simps)
  then have "(of_int ?k :: rat) < 2" by (simp only: e)
  then have u: "?k < 2" by (simp only: of_int_less_numeral_iff)
  from c have "of_int (cents s) + of_int (cents v) - of_int (cents S) < (2 :: rat)"
    by (simp add: algebra_simps)
  then have "(of_int (- ?k) :: rat) < 2" by (simp only: e')
  then have l: "- ?k < 2" by (simp only: of_int_less_numeral_iff)
  from u l have "\<bar>?k\<bar> \<le> 1" by linarith
  with t S show ?thesis by simp
qed


lemma computeTotals_components:
  "subTotal (computeTotals ls) = toFixed2 (sum_amounts ls)"
  "vat (computeTotals ls) = toFixed2 (sum_taxes ls)"
  "total (computeTotals ls) = toFixed2 (dadd (sum_amounts ls) (sum_taxes ls))"
  by (simp_all add: computeTotals_def Let_def sum_amounts_def sum_taxes_def foldl_map)

text \<open>
  C9 (as amended). For every list of lines, with every operation in double arithmetic:
  \<open>subTotal\<close> is \<open>toFixed(2)\<close> of the running sum of quantity times unit price, \<open>vat\<close> is
  \<open>toFixed(2)\<close> of the running sum of the taxes, and \<open>total\<close> is \<open>toFixed(2)\<close> of the sum
  of these two unrounded amounts, not the sum of the rounded components. When the two
  unrounded amounts are finite and at most \<open>2 ^ 44\<close> in magnitude, \<open>subTotal\<close> and \<open>vat\<close>
  are, in whole cents, the unrounded amounts rounded to the nearest cent, and \<open>total\<close> is
  within one cent of their sum.
\<close>

theorem computeTotals_rounds_components_separately:
  "subTotal (computeTotals ls) = toFixed2 (sum_amounts ls)
   \<and> vat (computeTotals ls) = toFixed2 (sum_taxes ls)
   \<and> total (computeTotals ls) = toFixed2 (dadd (sum_amounts ls) (sum_taxes ls))
   \<and> (sum_amounts ls = Val s \<and> sum_taxes ls = Val v \<and> \<bar>s\<bar> \<le> 2 ^ 44 \<and> \<bar>v\<bar> \<le> 2 ^ 44 \<longrightarrow>
        cents_of (subTotal (computeTotals ls)) = Some (cents s)
        \<and> cents_of (vat (computeTotals ls)) = Some (cents v)
        \<and> (\<exists>t. cents_of (total (computeTotals ls)) = Some t
                 \<and> \<bar>t - (cents s + cents v)\<bar> \<le> 1))"
proof -
  have "cents_of (subTotal (computeTotals ls)) = Some (cents s)
        \<and> cents_of (vat (computeTotals ls)) = Some (cents v)
        \<and> (\<exists>t. cents_of (total (computeTotals ls)) = Some t
                 \<and> \<bar>t - (cents s + cents v)\<bar> \<le> 1)"
    if h: "sum_amounts ls = Val s" "sum_taxes ls = Val v" "\<bar>s\<bar> \<le> 2 ^ 44" "\<bar>v\<bar> \<le> 2 ^ 44"
  proof -
    from h(3) have "\<bar>s\<bar> \<le> 2 ^ 45 + 1" by simp
    then have a: "cents_of (toFixed2 (Val s)) = Some (cents s)" by (rule toFixed2_cents)
    from h(4) have "\<bar>v\<bar> \<le> 2 ^ 45 + 1" by simp
    then have b: "cents_of (toFixed2 (Val v)) = Some (cents v)" by (rule toFixed2_cents)
    from a b sum_cents [OF h(3,4)] show ?thesis
      by (simp add: computeTotals_components h(1,2))
  qed
  then show ?thesis
    by (simp add: computeTotals_components)
qed

theorem computeTotals_rounds_components_witness:
  "sum_amounts example_lines = Val (5631751334026805 / 562949953421312)
   \<and> sum_taxes example_lines = Val (5631751334026805 / 562949953421312)
   \<and> cents (5631751334026805 / 562949953421312) = 1000
   \<and> cents_of (subTotal (computeTotals example_lines)) = Some 1000
   \<and> cents_of (vat (computeTotals example_lines)) = Some 1000
   \<and> cents_of (total (computeTotals example_lines)) = Some 2001"
proof -
  let ?d = "5631751334026805 / 562949953421312 :: rat"
  have s: "sum_amounts example_lines = Val ?d" and v: "sum_taxes example_lines = Val ?d"
    by code_simp+
  have c: "cents ?d = 1000" and t: "cents (5632314283980227 / 281474976710656) = 2001"
    by code_simp+
  have b: "\<bar>?d\<bar> \<le> 2 ^ 44" by simp
  from computeTotals_rounds_components_separately [of example_lines ?d ?d] s v b
  have k: "cents_of (subTotal (computeTotals example_lines)) = Some (cents ?d)"
    "cents_of (vat (computeTotals example_lines)) = Some (cents ?d)"
    by blast+
  have tt: "cents_of (total (computeTotals example_lines)) = Some 2001"
    by (simp add: example_totals t)
  show ?thesis
    by (intro conjI s v c k [unfolded c] tt)
qed

section \<open>Properties of the list mutations\<close>

lemma apply_cache_op_consistent: "pagination_consistent (apply_cache_op c prev)"
  by (cases c; cases prev)
    (simp_all add: pagination_consistent_def addToListData_def removeFromListData_def
      removeManyFromListData_def)

lemma run_cache_ops_snoc:
  "run_cache_ops (ops @ [c]) prev = apply_cache_op c (run_cache_ops ops prev)"
  by (simp add: run_cache_ops_def)

lemma run_cache_ops_consistent:
  "ops \<noteq> [] \<Longrightarrow> pagination_consistent (run_cache_ops ops prev)"
  by (cases ops rule: rev_cases) (simp_all add: run_cache_ops_snoc apply_cache_op_consistent)

lemma ceil_quotient_finite:
  "b \<noteq> 0 \<Longrightarrow> ceil_quotient a b = Finite \<lceil>(of_int a :: rat) / of_int b\<rceil>"
  by (simp add: ceil_quotient_def)

text \<open>
  C1. Take any sequence of list mutations (add to list, single delete, bulk delete) and
  any starting list data. After each of them, that is after every non-empty prefix of the
  sequence, the stored \<open>totalPages\<close> is the value of
  \<open>Math.ceil(totalItems / pageSize)\<close> for the stored \<open>totalItems\<close> and \<open>pageSize\<close>;
  for a page size other than zero this is the integer ceiling of the quotient.
\<close>

theorem totalPages_consistent_after_each_mutation:
  assumes "0 < n" and "n \<le> length ops"
    and "run_cache_ops (take n ops) prev = Some p"
  shows "totalPages (pagination p)
           = ceil_quotient (totalItems (pagination p)) (pageSize (pagination p))
         \<and> (pageSize (pagination p) \<noteq> 0 \<longrightarrow>
              totalPages (pagination p)
                = Finite \<lceil>(of_int (totalItems (pagination p)) :: rat)
                           / of_int (pageSize (pagination p))\<rceil>)"
proof -
  from assms(1,2) have "take n ops \<noteq> []" by auto
  then have "pagination_consistent (run_cache_ops (take n ops) prev)"
    by (rule run_cache_ops_consistent)
  with assms(3) have eq: "totalPages (pagination p)
      = ceil_quotient (totalItems (pagination p)) (pageSize (pagination p))"
    by (simp add: pagination_consistent_def)
  then show ?thesis by (simp add: ceil_quotient_finite)
qed

lemma ceiling_quotient_div: "\<lceil>(of_int a :: rat) / of_int b\<rceil> = - ((- a) div b)"
proof -
  have "\<lceil>(of_int a :: rat) / of_int b\<rceil> = - \<lfloor>(of_int (- a) :: rat) / of_int b\<rfloor>"
    by (simp add: ceiling_def)
  then show ?thesis by (simp only: floor_divide_of_int_eq)
qed

lemma ceil_quotient_code:
  "ceil_quotient a b =
     (if b \<noteq> 0 then Finite (- ((- a) div b))
      else if 0 < a then PosInfinity else if a < 0 then NegInfinity else NaN)"
  by (simp add: ceil_quotient_def ceiling_quotient_div)

theorem totalPages_consistent_witness:
  "run_cache_ops (take 3 [Add_to_list (example_invoice 11), Delete_one 1, Delete_many [2, 3]])
           (Some (example_page [1, 2, 3] 1 5 10 2)) =
         Some \<lparr> invoices_page = [example_invoice 11],
                pagination = \<lparr> page = 1, pageSize = 5, totalItems = 8, totalPages = Finite 2 \<rparr> \<rparr>
   \<and> Finite 2 = ceil_quotient 8 5
   \<and> Finite 2 = Finite \<lceil>(8 :: rat) / 5\<rceil>"
proof -
  let ?ops = "[Add_to_list (example_invoice 11), Delete_one 1, Delete_many [2, 3]]"
  let ?p = "\<lparr> invoices_page = [example_invoice 11],
                pagination = \<lparr> page = 1, pageSize = 5, totalItems = 8, totalPages = Finite 2 \<rparr> \<rparr>"
  have run: "run_cache_ops (take 3 ?ops) (Some (example_page [1, 2, 3] 1 5 10 2)) = Some ?p"
    by (simp add: run_cache_ops_def addToListData_def removeFromListData_def
        removeManyFromListData_def example_page_def example_invoice_def ceil_quotient_code)
  have "(0::nat) < 3" and "3 \<le> length ?ops" by simp_all
  from totalPages_consistent_after_each_mutation [OF this run] run
  show ?thesis by simp
qed

section \<open>Properties of the handlers\<close>


lemma fold_remove:
  "fold optimisticallyRemoveInvoice ids w
     = w\<lparr>invoices := filter (\<lambda>inv. \<not> array_includes ids (id_inv inv)) (invoices w)\<rparr>"
proof (induction ids arbitrary: w)
  case Nil
  then show ?case by simp
next
  case (Cons i ids)
  have "filter (\<lambda>inv. \<not> array_includes ids (id_inv inv)) (filter (\<lambda>inv. id_inv inv \<noteq> i) xs)
      = filter (\<lambda>inv. \<not> array_includes (i # ids) (id_inv inv)) xs" for xs :: "Invoice list"
    by (induction xs) auto
  with Cons show ?case by (simp add: optimisticallyRemoveInvoice_def)
qed

lemma fold_add:
  "fold optimisticallyAddInvoice xs w = w\<lparr>invoices := rev xs @ invoices w\<rparr>"
  by (induction xs arbitrary: w) (simp_all add: optimisticallyAddInvoice_def)

lemma fold_send:
  "fold send rqs w = w\<lparr>requests := requests w @ rqs\<rparr>"
  by (induction rqs arbitrary: w) (simp_all add: send_def)

lemma some_call_fails:
  "k < n \<Longrightarrow> call_fails (reply k) \<Longrightarrow> list_ex call_fails (map reply [0..<n])"
  by (auto simp: list_ex_iff)

lemma bulk_rollback_state:
  assumes "list_ex call_fails (map reply [0..<length ids])"
  shows "invoiceListData (handleBulkDelete ids reply refresh w) = invoiceListData w"
    and "invoices (handleBulkDelete ids reply refresh w)
           = rev (filter (\<lambda>inv. array_includes ids (id_inv inv)) (invoices w))
             @ filter (\<lambda>inv. \<not> array_includes ids (id_inv inv)) (invoices w)"
  using assms
  by (simp_all add: handleBulkDelete_def Let_def fold_remove fold_add fold_send
      setInvoiceListData_def setToken_def clearAuthData_def)

text \<open>
  C2. In a bulk delete over a list of ids, if the call for any one id fails (a 401, another
  status outside 200 to 299, or no response), the list data (records and pagination) is
  the one captured before the batch, and \<open>invoices\<close> holds the records it held before:
  those of the batch are put back at its front, so none of them is left deleted, also not
  one whose own call succeeded.
\<close>

theorem bulk_delete_failure_restores_snapshot:
  assumes "k < length ids" and "call_fails (reply k)"
  shows "invoiceListData (handleBulkDelete ids reply refresh w) = invoiceListData w
       \<and> mset (invoices (handleBulkDelete ids reply refresh w)) = mset (invoices w)
       \<and> invoices (handleBulkDelete ids reply refresh w)
           = rev (filter (\<lambda>inv. array_includes ids (id_inv inv)) (invoices w))
             @ filter (\<lambda>inv. \<not> array_includes ids (id_inv inv)) (invoices w)"
proof -
  have f: "list_ex call_fails (map reply [0..<length ids])"
    using assms by (rule some_call_fails)
  show ?thesis
    by (simp add: bulk_rollback_state [OF f])
qed

theorem bulk_delete_failure_witness:
  "call_fails (example_replies 1 401 1)
   \<and> invoiceListData (handleBulkDelete [1, 2, 3] (example_replies 1 401) None
        (example_state [1, 2, 3, 4] (Some (example_page [1, 2, 3, 4] 1 4 10 3))))
       = Some (example_page [1, 2, 3, 4] 1 4 10 3)
   \<and> invoices (handleBulkDelete [1, 2, 3] (example_replies 1 401) None
        (example_state [1, 2, 3, 4] (Some (example_page [1, 2, 3, 4] 1 4 10 3))))
       = map example_invoice [3, 2, 1, 4]
   \<and> mset (map example_invoice [3, 2, 1, 4]) = mset (map example_invoice [1, 2, 3, 4])"
proof -
  let ?w = "example_state [1, 2, 3, 4] (Some (example_page [1, 2, 3, 4] 1 4 10 3))"
  have k: "(1::nat) < length [1, 2, 3 :: int]" by simp
  have f: "call_fails (example_replies 1 401 1)"
    by (simp add: call_fails_def example_replies_def reply_with_def)
  have inv: "invoices ?w = map example_invoice [1, 2, 3, 4]"
    and ld: "invoiceListData ?w = Some (example_page [1, 2, 3, 4] 1 4 10 3)"
    by (simp_all add: example_state_def)
  have ids: "id_inv (example_invoice i) = i" for i
    by (simp add: example_invoice_def)
  from bulk_delete_failure_restores_snapshot
    [where k = 1 and ids = "[1, 2, 3]" and reply = "example_replies 1 401" and refresh = None
      and w = ?w, OF k f] f
  show ?thesis
    by (simp add: inv ld ids)
qed


lemma tempInvoice_id: "id_inv (tempInvoice newInvoice customerName userEmail e) = now e 0"
  by (simp add: tempInvoice_def)

lemma filter_other_ids:
  "\<forall>inv \<in> set xs. id_inv inv \<noteq> k \<Longrightarrow> filter (\<lambda>inv. id_inv inv \<noteq> k) xs = xs"
  by (induction xs) auto

text \<open>
  C4 (as amended). When the create call is answered with a 401 or with another status
  outside 200 to 299, \<open>invoices\<close> is again the list it was before the create and the
  list data (records and pagination) is untouched, provided that no record of the list
  already carries the temporary id (the clock reading) and that the error body does not
  name a record of the list in a truthy \<open>tempInvoiceId\<close> member.
\<close>

theorem create_failure_restores_state:
  assumes "status_code r = 401 \<or> \<not> ok r"
    and "\<forall>inv \<in> set (invoices w). id_inv inv \<noteq> now e 0"
    and "\<forall>d k. errorBody r = Some d \<and> tempInvoiceId d = Some k \<and> k \<noteq> 0
           \<longrightarrow> (\<forall>inv \<in> set (invoices w). id_inv inv \<noteq> k)"
  shows "invoices (snd (handleCreateInvoice newInvoice customerName userEmail e (Some r) w))
           = invoices w
       \<and> invoiceListData (snd (handleCreateInvoice newInvoice customerName userEmail e (Some r) w))
           = invoiceListData w"
proof (cases "status_code r = 401")
  case True
  then show ?thesis
    using assms(2)
    by (simp add: handleCreateInvoice_def Let_def tempInvoice_id optimisticallyRemoveInvoice_def
        optimisticallyAddInvoice_def send_def setToken_def clearAuthData_def filter_other_ids)
next
  case False
  with assms(1) have nok: "\<not> ok r" by simp
  show ?thesis
  proof (cases "errorBody r")
    case None
    with False nok assms(2) show ?thesis
      by (simp add: handleCreateInvoice_def Let_def tempInvoice_id create_catch_def
          optimisticallyRemoveInvoice_def optimisticallyAddInvoice_def send_def filter_other_ids)
  next
    case (Some d)
    show ?thesis
    proof (cases "tempInvoiceId d")
      case None
      with Some False nok assms(2) show ?thesis
        by (simp add: handleCreateInvoice_def Let_def tempInvoice_id create_catch_def
            optimisticallyRemoveInvoice_def optimisticallyAddInvoice_def send_def filter_other_ids)
    next
      case (Some k)
      with \<open>errorBody r = Some d\<close> assms(3)
      have "k \<noteq> 0 \<Longrightarrow> \<forall>inv \<in> set (invoices w). id_inv inv \<noteq> k" by blast
      with Some \<open>errorBody r = Some d\<close> False nok assms(2) show ?thesis
        by (simp add: handleCreateInvoice_def Let_def tempInvoice_id create_catch_def
            optimisticallyRemoveInvoice_def optimisticallyAddInvoice_def send_def filter_other_ids)
    qed
  qed
qed


lemma example_invoice_id: "id_inv (example_invoice i) = i"
  by (simp add: example_invoice_def)

theorem create_failure_restores_state_witness:
  "status_code (the (reply_with 500 :: Invoice response option)) = 500
   \<and> invoices (snd (handleCreateInvoice example_new None ''amal@example.test'' example_env
        (reply_with 500) (example_state [1, 2] (Some (example_page [1, 2] 1 5 2 1)))))
       = map example_invoice [1, 2]
   \<and> invoiceListData (snd (handleCreateInvoice example_new None ''amal@example.test'' example_env
        (reply_with 500) (example_state [1, 2] (Some (example_page [1, 2] 1 5 2 1)))))
       = Some (example_page [1, 2] 1 5 2 1)"
proof -
  let ?r = "\<lparr> status_code = 500, errorBody = None, payload = Blank \<rparr> :: Invoice response"
  let ?w = "example_state [1, 2] (Some (example_page [1, 2] 1 5 2 1))"
  have a: "status_code ?r = 401 \<or> \<not> ok ?r" by (simp add: ok_def)
  have b: "\<forall>inv \<in> set (invoices ?w). id_inv inv \<noteq> now example_env 0"
    by (simp add: example_state_def example_invoice_id example_env_def)
  have c: "\<forall>d k. errorBody ?r = Some d \<and> tempInvoiceId d = Some k \<and> k \<noteq> 0
           \<longrightarrow> (\<forall>inv \<in> set (invoices ?w). id_inv inv \<noteq> k)"
    by simp
  from create_failure_restores_state [OF a b c, of example_new None "''amal@example.test''"]
  show ?thesis
    by (simp add: reply_with_def example_state_def)
qed

text \<open>
  Two failed creates that do not give the list back. In the first, a record of the list
  has the id that the clock reads, and the rollback removes it together with the temporary
  record. In the second, the error body has a \<open>tempInvoiceId\<close> member equal to the id
  of a record of the list, and the \<open>catch\<close> block removes that record.
\<close>

theorem create_failure_counterexample:
  "invoices (snd (handleCreateInvoice example_new None ''amal@example.test'' example_env
        (reply_with 500) (example_state [1700000000000, 2] None)))
     = map example_invoice [2]
   \<and> invoices (example_state [1700000000000, 2] None) = map example_invoice [1700000000000, 2]
   \<and> map example_invoice [2] \<noteq> map example_invoice [1700000000000, 2]
   \<and> invoices (snd (handleCreateInvoice example_new None ''amal@example.test'' example_env
        (example_error_reply 422 2) (example_state [1, 2] None)))
     = map example_invoice [1]
   \<and> invoices (example_state [1, 2] None) = map example_invoice [1, 2]
   \<and> map example_invoice [1] \<noteq> map example_invoice [1, 2]"
  by (simp add: handleCreateInvoice_def Let_def tempInvoice_def create_catch_def
      optimisticallyRemoveInvoice_def optimisticallyAddInvoice_def send_def
      reply_with_def example_error_reply_def ok_def example_state_def example_env_def
      example_invoice_id)

text \<open>
  A list holding a record whose id is 1700000000000, and a create at the moment the clock
  reads 1700000000000: the temporary id is the id of that record.
\<close>

theorem temp_id_counterexample:
  "id_inv (tempInvoice example_new None ''amal@example.test'' example_env)
     = id_inv (example_invoice 1700000000000)
   \<and> example_invoice 1700000000000 \<in> set (invoices (example_state [1700000000000, 2] None))"
  by (simp add: tempInvoice_def example_env_def example_invoice_id example_state_def)

text \<open>
  C8 (as amended). The temporary id of an optimistic create is the clock reading
  \<open>Date.now()\<close>, an integer like the ids the server assigns; it differs from the id of
  every record of a list whenever none of those ids equals the clock reading.
\<close>

theorem temp_id_is_clock_reading:
  "id_inv (tempInvoice newInvoice customerName userEmail e) = now e 0
   \<and> ((\<forall>inv \<in> set xs. id_inv inv \<noteq> now e 0)
        \<longrightarrow> id_inv (tempInvoice newInvoice customerName userEmail e) \<notin> id_inv ` set xs)"
  by (auto simp: tempInvoice_def)

theorem temp_id_is_clock_reading_witness:
  "id_inv (tempInvoice example_new None ''amal@example.test'' example_env) = 1700000000000
   \<and> id_inv (tempInvoice example_new None ''amal@example.test'' example_env)
        \<notin> id_inv ` set (map example_invoice [1, 2])"
proof -
  have "\<forall>inv \<in> set (map example_invoice [1, 2]). id_inv inv \<noteq> now example_env 0"
    by (simp add: example_invoice_id example_env_def)
  with temp_id_is_clock_reading
    [of example_new None "''amal@example.test''" example_env "map example_invoice [1, 2]"]
  show ?thesis by (simp add: example_env_def)
qed


lemma updatedInvoice_of_id:
  "id_inv (updatedInvoice_of originalInvoice invoice i customerName e) = id_inv originalInvoice"
  by (simp add: updatedInvoice_of_def)

lemma find_id_Some: "find (\<lambda>inv. id_inv inv = X) xs = Some orig \<Longrightarrow> id_inv orig = X"
  by (induction xs) (auto split: if_splits)

lemma find_after_restore:
  assumes "find (\<lambda>inv. id_inv inv = X) xs = Some orig" and "id_inv upd = X"
  shows "find (\<lambda>inv. id_inv inv = X)
           (map (\<lambda>inv. if id_inv inv = X then orig else inv)
              (map (\<lambda>inv. if id_inv inv = X then upd else inv) xs)) = Some orig"
  using assms by (induction xs) (auto split: if_splits)

lemma restore_distinct:
  assumes "find (\<lambda>inv. id_inv inv = X) xs = Some orig" and "id_inv upd = X"
    and "distinct (map id_inv xs)"
  shows "map (\<lambda>inv. if id_inv inv = X then orig else inv)
           (map (\<lambda>inv. if id_inv inv = X then upd else inv) xs) = xs"
  using assms
proof (induction xs)
  case Nil
  then show ?case by simp
next
  case (Cons a xs)
  show ?case
  proof (cases "id_inv a = X")
    case True
    with Cons.prems have a: "a = orig" by simp
    from True Cons.prems(3) have "X \<notin> id_inv ` set xs" by simp
    then have "\<forall>inv \<in> set xs. id_inv inv \<noteq> X" by blast
    then have "map (\<lambda>inv. if id_inv inv = X then orig else inv)
           (map (\<lambda>inv. if id_inv inv = X then upd else inv) xs) = xs"
      by (induction xs) auto
    with True a Cons.prems(2) show ?thesis by simp
  next
    case False
    with Cons show ?thesis by simp
  qed
qed

text \<open>
  C5. Take an update of a record with id \<open>X\<close> that is in \<open>invoices\<close>, for which the
  request is sent (the handler sends nothing for the id 0) and answered with status 401.
  Afterwards the record found at id \<open>X\<close> is the one found there before the update, the
  token is cleared and the stored credential data is dropped; the list data is untouched,
  and when the ids of \<open>invoices\<close> are distinct the whole list is as before.
\<close>

theorem update_401_restores_record_and_clears_session:
  assumes "id_new invoice = Some X"
    and "find (\<lambda>inv. id_inv inv = X) (invoices w) = Some orig"
    and "status_code r = 401"
    and "requests (snd (handleUpdateInvoice invoice customerName e (Some r) w)) \<noteq> requests w"
  shows "find (\<lambda>inv. id_inv inv = X)
           (invoices (snd (handleUpdateInvoice invoice customerName e (Some r) w))) = Some orig
       \<and> token (snd (handleUpdateInvoice invoice customerName e (Some r) w)) = None
       \<and> authData (snd (handleUpdateInvoice invoice customerName e (Some r) w)) = None
       \<and> invoiceListData (snd (handleUpdateInvoice invoice customerName e (Some r) w))
           = invoiceListData w
       \<and> (distinct (map id_inv (invoices w)) \<longrightarrow>
            invoices (snd (handleUpdateInvoice invoice customerName e (Some r) w)) = invoices w)"
proof -
  from assms(1,4) have X: "X \<noteq> 0"
    by (auto simp: handleUpdateInvoice_def)
  have idu: "id_inv (updatedInvoice_of orig invoice X customerName e) = X"
    using find_id_Some [OF assms(2)] by (simp add: updatedInvoice_of_id)
  have ido: "id_inv orig = X" by (rule find_id_Some [OF assms(2)])
  have st: "snd (handleUpdateInvoice invoice customerName e (Some r) w)
      = optimisticallyUpdateInvoice orig (setToken None (clearAuthData
          (send (Update_req X invoice)
             (optimisticallyUpdateInvoice (updatedInvoice_of orig invoice X customerName e) w))))"
    using assms(1,2,3) X by (simp add: handleUpdateInvoice_def Let_def)
  show ?thesis
    unfolding st
    using find_after_restore [OF assms(2) idu] restore_distinct [OF assms(2) idu]
    by (simp add: optimisticallyUpdateInvoice_def setToken_def clearAuthData_def send_def idu ido)
qed


theorem update_401_witness:
  "find (\<lambda>inv. id_inv inv = 2)
     (invoices (snd (handleUpdateInvoice (example_new\<lparr>id_new := Some 2\<rparr>) None example_env
        (reply_with 401) (example_state [1, 2, 3] None)))) = Some (example_invoice 2)
   \<and> token (snd (handleUpdateInvoice (example_new\<lparr>id_new := Some 2\<rparr>) None example_env
        (reply_with 401) (example_state [1, 2, 3] None))) = None
   \<and> authData (snd (handleUpdateInvoice (example_new\<lparr>id_new := Some 2\<rparr>) None example_env
        (reply_with 401) (example_state [1, 2, 3] None))) = None
   \<and> invoices (snd (handleUpdateInvoice (example_new\<lparr>id_new := Some 2\<rparr>) None example_env
        (reply_with 401) (example_state [1, 2, 3] None))) = map example_invoice [1, 2, 3]
   \<and> token (example_state [1, 2, 3] None) = Some ''jwt''"
proof -
  let ?r = "\<lparr> status_code = 401, errorBody = None, payload = Blank \<rparr> :: Invoice response"
  let ?w = "example_state [1, 2, 3] None"
  let ?n = "example_new\<lparr>id_new := Some 2\<rparr>"
  have a: "id_new ?n = Some 2" by simp
  have b: "find (\<lambda>inv. id_inv inv = 2) (invoices ?w) = Some (example_invoice 2)"
    by (simp add: example_state_def example_invoice_id)
  have c: "status_code ?r = 401" by simp
  have d: "requests (snd (handleUpdateInvoice ?n None example_env (Some ?r) ?w)) \<noteq> requests ?w"
    by (simp add: handleUpdateInvoice_def Let_def example_state_def example_invoice_id
        optimisticallyUpdateInvoice_def setToken_def clearAuthData_def send_def)
  have e: "distinct (map id_inv (invoices ?w))"
    by (simp add: example_state_def example_invoice_id)
  from update_401_restores_record_and_clears_session [OF a b c d] e
  show ?thesis
    by (simp add: reply_with_def example_state_def example_invoice_id)
qed

lemma delete_sends:
  assumes "requests (handleDeleteInvoice i resp refresh w) \<noteq> requests w"
  obtains orig where "find (\<lambda>inv. id_inv inv = i) (invoices w) = Some orig"
  using assms by (cases "find (\<lambda>inv. id_inv inv = i) (invoices w)")
    (auto simp: handleDeleteInvoice_def)

text \<open>
  C6. Take a delete on a page that is full (as many records in the list data as the page
  size) while the page number is below \<open>totalPages\<close>, for which the request is sent (the
  record is in \<open>invoices\<close>) and answered with a status from 200 to 299. Then the handler
  issues, right after the delete request, a list request that carries the page and the
  page size the list data had before the deletion.
\<close>

theorem delete_on_full_page_issues_refresh:
  assumes "invoiceListData w = Some d"
    and "int (length (invoices_page d)) = pageSize (pagination d)"
    and "js_less (page (pagination d)) (totalPages (pagination d))"
    and "ok r"
    and "requests (handleDeleteInvoice i (Some r) refresh w) \<noteq> requests w"
  shows "requests (handleDeleteInvoice i (Some r) refresh w)
           = requests w @ [Delete_req i, List_req (page (pagination d)) (pageSize (pagination d))]"
proof -
  from assms(5) obtain orig where f: "find (\<lambda>inv. id_inv inv = i) (invoices w) = Some orig"
    by (rule delete_sends)
  from assms(4) have n401: "status_code r \<noteq> 401" by (auto simp: ok_def)
  have "requests (refreshPage d refresh w') = requests w' @
      [List_req (page (pagination d)) (pageSize (pagination d))]" for w'
    by (simp add: refreshPage_def Let_def send_def setInvoiceListData_def
        split: option.split body.split)
  with f n401 assms(1-4) show ?thesis
    by (simp add: handleDeleteInvoice_def Let_def send_def optimisticallyRemoveInvoice_def)
qed

theorem delete_on_full_page_witness:
  "requests (handleDeleteInvoice 3 (reply_with 204) None
      (example_state [1, 2, 3, 4, 5] (Some (example_page [1, 2, 3, 4, 5] 1 5 10 2))))
     = [Delete_req 3, List_req 1 5]
   \<and> invoiceListData (handleDeleteInvoice 3 (reply_with 204) None
      (example_state [1, 2, 3, 4, 5] (Some (example_page [1, 2, 3, 4, 5] 1 5 10 2))))
     = Some (example_page [1, 2, 4, 5] 1 5 9 2)"
proof -
  let ?r = "\<lparr> status_code = 204, errorBody = None, payload = Blank \<rparr> :: unit response"
  let ?d = "example_page [1, 2, 3, 4, 5] 1 5 10 2"
  let ?w = "example_state [1, 2, 3, 4, 5] (Some ?d)"
  have a: "invoiceListData ?w = Some ?d" by (simp add: example_state_def)
  have b: "int (length (invoices_page ?d)) = pageSize (pagination ?d)"
    by (simp add: example_page_def)
  have c: "js_less (page (pagination ?d)) (totalPages (pagination ?d))"
    by (simp add: example_page_def)
  have d: "ok ?r" by (simp add: ok_def)
  have st: "handleDeleteInvoice 3 (Some ?r) None ?w
      = ?w\<lparr>invoices := map example_invoice [1, 2, 4, 5],
            invoiceListData := Some (example_page [1, 2, 4, 5] 1 5 9 2),
            requests := [Delete_req 3, List_req 1 5]\<rparr>"
    by (simp add: handleDeleteInvoice_def Let_def example_state_def example_page_def
        example_invoice_id optimisticallyRemoveInvoice_def removeFromListData_def
        ceil_quotient_code send_def refreshPage_def ok_def)
  have e: "requests (handleDeleteInvoice 3 (Some ?r) None ?w) \<noteq> requests ?w"
    unfolding st by (simp add: example_state_def)
  from delete_on_full_page_issues_refresh [OF a b c d e] st
  show ?thesis
    by (simp add: reply_with_def example_state_def example_page_def)
qed



end
